theory Spec2Isabelle
  imports Main "HOL-Library.Char_ord" "HOL-Library.List_Lexorder"
begin

section \<open>The lending service of \<^verbatim>\<open>src/index.js\<close>\<close>

text \<open>
  The program is an Express application over an SQLite database. Each route is a handler
  that reads the request, runs one or two SQL statements and sends one response. The
  embedding below keeps the handlers' names and their order of checks. The database is an
  explicit value that every handler takes and returns; a response that was sent, or an
  exception that left the handler, is the handler's outcome.

  Strings are byte lists ordered lexicographically by byte value, which is the order of
  SQLite's default \<^verbatim>\<open>BINARY\<close> collation on \<^verbatim>\<open>TEXT\<close>.
\<close>

subsection \<open>Rows and tables\<close>

text \<open>
  One record per table of the schema (\<^verbatim>\<open>CREATE TABLE\<close>, lines 38 to 117). The
  primary keys are the columns \<^verbatim>\<open>id\<close>; they are named \<open>u_id\<close>, \<open>b_id\<close> and \<open>r_id\<close>
  here since \<open>id\<close> is the identity function of HOL. The table \<^verbatim>\<open>borrow_history\<close> is
  created but no route reads or writes it, so it is left out of the state.
\<close>

record user =
  u_id :: int
  email :: string
  password :: string
  is_admin :: bool

record book =
  b_id :: int
  title :: string
  author :: string

record borrow_request =
  r_id :: int
  book_id :: int
  user_id :: int
  start_date :: string
  end_date :: string
  status :: string

text \<open>
  The tables keep their rows in rowid order, which is the order of a \<^verbatim>\<open>SELECT\<close>
  without \<^verbatim>\<open>ORDER BY\<close>. The two counters are the entries of \<^verbatim>\<open>sqlite_sequence\<close>
  that \<^verbatim>\<open>AUTOINCREMENT\<close> maintains.
\<close>

record db =
  users :: "user list"
  books :: "book list"
  borrow_requests :: "borrow_request list"
  users_seq :: int
  borrow_requests_seq :: int

definition empty_db :: db where
  "empty_db = \<lparr>users = [], books = [], borrow_requests = [], users_seq = 0, borrow_requests_seq = 0\<rparr>"

subsection \<open>Requests and responses\<close>

text \<open>
  A field of a JSON body is absent (\<^verbatim>\<open>undefined\<close> after destructuring), \<^verbatim>\<open>null\<close>, or
  a value; the values carry the type of the column they are written to.
\<close>

datatype 'a field = Undefined | Null | Value 'a

record user_body =
  email_field :: "string field"
  password_field :: "string field"
  is_admin_field :: "bool field"

record borrow_body =
  book_id_field :: "int field"
  start_date_field :: "string field"
  end_date_field :: "string field"

text \<open>The body \<^verbatim>\<open>{book_id: b, start_date: s, end_date: e}\<close> with all three fields present.\<close>

definition request_body :: "int \<Rightarrow> string \<Rightarrow> string \<Rightarrow> borrow_body" where
  "request_body b s e = \<lparr>book_id_field = Value b, start_date_field = Value s, end_date_field = Value e\<rparr>"

datatype payload = Text string | Requests "borrow_request list" | Books "book list"

datatype exception = TypeError | BcryptError

text \<open>
  \<open>Sent code body\<close> is \<^verbatim>\<open>res.status(code).send(body)\<close> (\<^verbatim>\<open>res.send\<close> alone sends 200).
  \<open>Threw e\<close> is an exception that leaves the \<^verbatim>\<open>async\<close> handler: its promise is
  rejected and the handler has sent no response.
\<close>

datatype outcome = Sent nat payload | Threw exception

subsection \<open>External collaborators\<close>

text \<open>
  The handlers call into Node's \<^verbatim>\<open>Buffer\<close>, into the \<^verbatim>\<open>bcrypt\<close> package and into
  SQLite's type conversion. None of them is code of this repository, so they are
  parameters of the model:
  \<^item> \<open>base64_toString c\<close> is \<^verbatim>\<open>Buffer.from(c, 'base64').toString()\<close>;
  \<^item> \<open>compareSync p h\<close> is \<^verbatim>\<open>bcrypt.compareSync(p, h)\<close> on two strings;
  \<^item> \<open>hashSync p\<close> is \<^verbatim>\<open>bcrypt.hashSync(p, 10)\<close> on a string (with the salt it draws);
  \<^item> \<open>integer_affinity t\<close> is the integer that SQLite compares with an \<^verbatim>\<open>INTEGER\<close>
    column when the bound parameter is the text \<open>t\<close>, and \<open>None\<close> when \<open>t\<close> is not the
    text of an integer (such a parameter equals no integer).
\<close>

record env =
  base64_toString :: "string \<Rightarrow> string"
  compareSync :: "string \<Rightarrow> string \<Rightarrow> bool"
  hashSync :: "string \<Rightarrow> string"
  integer_affinity :: "string \<Rightarrow> int option"

text \<open>
  Both \<^verbatim>\<open>bcrypt\<close> functions throw when the data argument is missing or is not a
  string; that is the package's documented argument check.
\<close>

definition bcrypt_hashSync :: "env \<Rightarrow> string field \<Rightarrow> exception + string" where
  "bcrypt_hashSync e data =
     (case data of Value p \<Rightarrow> Inr (hashSync e p) | Undefined \<Rightarrow> Inl BcryptError | Null \<Rightarrow> Inl BcryptError)"

definition bcrypt_compareSync :: "env \<Rightarrow> string option \<Rightarrow> string \<Rightarrow> exception + bool" where
  "bcrypt_compareSync e data hash =
     (case data of Some p \<Rightarrow> Inr (compareSync e p hash) | None \<Rightarrow> Inl BcryptError)"

subsection \<open>JavaScript helpers\<close>

text \<open>
  \<^verbatim>\<open>s.split(sep)\<close> for a one-character separator: the pieces between the separators,
  empty pieces included; the result is never empty.
\<close>

fun split_from :: "char \<Rightarrow> string \<Rightarrow> string \<Rightarrow> string list" where
  "split_from sep piece [] = [piece]"
| "split_from sep piece (c # cs) =
     (if c = sep then piece # split_from sep [] cs else split_from sep (piece @ [c]) cs)"

definition js_split :: "char \<Rightarrow> string \<Rightarrow> string list" where
  "js_split sep s = split_from sep [] s"

text \<open>\<^verbatim>\<open>xs[i]\<close>, which is \<^verbatim>\<open>undefined\<close> out of range.\<close>

fun js_index :: "'a list \<Rightarrow> nat \<Rightarrow> 'a option" where
  "js_index [] i = None"
| "js_index (x # xs) 0 = Some x"
| "js_index (x # xs) (Suc i) = js_index xs i"

subsection \<open>The SQL statements\<close>

text \<open>
  A parameter that is \<^verbatim>\<open>undefined\<close> is left unbound and one that is \<^verbatim>\<open>null\<close> is bound
  to \<^verbatim>\<open>NULL\<close>; SQLite reads both as \<^verbatim>\<open>NULL\<close>.
\<close>

fun bind_param :: "'a field \<Rightarrow> 'a option" where
  "bind_param Undefined = None"
| "bind_param Null = None"
| "bind_param (Value v) = Some v"

text \<open>
  The \<^verbatim>\<open>WHERE\<close> clauses only combine comparisons with \<^verbatim>\<open>AND\<close> and \<^verbatim>\<open>OR\<close>, so a
  row is selected exactly when the clause is true with every comparison against
  \<^verbatim>\<open>NULL\<close> read as not true.
\<close>

text \<open>\<^verbatim>\<open>? BETWEEN start_date AND end_date\<close>\<close>

definition sql_between :: "string option \<Rightarrow> string \<Rightarrow> string \<Rightarrow> bool" where
  "sql_between x lo hi = (case x of None \<Rightarrow> False | Some v \<Rightarrow> lo \<le> v \<and> v \<le> hi)"

text \<open>
  The \<^verbatim>\<open>WHERE\<close> clause of the conflict query (line 202):
  \<^verbatim>\<open>book_id = ? AND status = "Approved" AND
    (? BETWEEN start_date AND end_date OR ? BETWEEN start_date AND end_date)\<close>
\<close>

definition conflict_where :: "int option \<Rightarrow> string option \<Rightarrow> string option \<Rightarrow> borrow_request \<Rightarrow> bool" where
  "conflict_where b s e r =
     (Some (book_id r) = b \<and> status r = ''Approved'' \<and>
      (sql_between s (start_date r) (end_date r) \<or> sql_between e (start_date r) (end_date r)))"

text \<open>\<^verbatim>\<open>db.get\<close> gives the first selected row, or \<^verbatim>\<open>undefined\<close>.\<close>

definition get_conflict :: "db \<Rightarrow> int option \<Rightarrow> string option \<Rightarrow> string option \<Rightarrow> borrow_request option" where
  "get_conflict d b s e = find (conflict_where b s e) (borrow_requests d)"

text \<open>\<^verbatim>\<open>SELECT * FROM users WHERE email = ?\<close>\<close>

definition get_user_by_email :: "db \<Rightarrow> string option \<Rightarrow> user option" where
  "get_user_by_email d e = find (\<lambda>u. Some (email u) = e) (users d)"

text \<open>
  A write either succeeds or fails on a constraint of the schema and changes nothing.
  Other failures of the storage layer (I/O, exhausted rowids) are not modelled. SQLite
  does not enforce the \<^verbatim>\<open>FOREIGN KEY\<close> clauses unless the connection turns them on,
  which this program does not do.
\<close>

datatype sqlite_error = SQLITE_CONSTRAINT

text \<open>The rowid that \<^verbatim>\<open>AUTOINCREMENT\<close> gives the next row.\<close>

definition next_rowid :: "int \<Rightarrow> int list \<Rightarrow> int" where
  "next_rowid seq ids = fold max ids seq + 1"

text \<open>
  \<^verbatim>\<open>INSERT INTO borrow_requests (book_id, user_id, start_date, end_date, status)
    VALUES (?, ?, ?, ?, "Pending")\<close>: every column is \<^verbatim>\<open>NOT NULL\<close>.
\<close>

definition new_request_id :: "db \<Rightarrow> int" where
  "new_request_id d = next_rowid (borrow_requests_seq d) (map r_id (borrow_requests d))"

definition insert_borrow_request ::
  "db \<Rightarrow> int option \<Rightarrow> int option \<Rightarrow> string option \<Rightarrow> string option \<Rightarrow> sqlite_error + db" where
  "insert_borrow_request d b u s e =
     (case b of None \<Rightarrow> Inl SQLITE_CONSTRAINT | Some b' \<Rightarrow>
      case u of None \<Rightarrow> Inl SQLITE_CONSTRAINT | Some u' \<Rightarrow>
      case s of None \<Rightarrow> Inl SQLITE_CONSTRAINT | Some s' \<Rightarrow>
      case e of None \<Rightarrow> Inl SQLITE_CONSTRAINT | Some e' \<Rightarrow>
        Inr (d\<lparr>borrow_requests := borrow_requests d @
                   [\<lparr>r_id = new_request_id d, book_id = b', user_id = u', start_date = s',
                     end_date = e', status = ''Pending''\<rparr>],
                borrow_requests_seq := new_request_id d\<rparr>))"

text \<open>
  \<^verbatim>\<open>INSERT INTO users (email, password, is_admin) VALUES (?, ?, ?)\<close>: every column is
  \<^verbatim>\<open>NOT NULL\<close> and \<^verbatim>\<open>email\<close> is \<^verbatim>\<open>UNIQUE\<close>.
\<close>

definition new_user_id :: "db \<Rightarrow> int" where
  "new_user_id d = next_rowid (users_seq d) (map u_id (users d))"

definition insert_user :: "db \<Rightarrow> string option \<Rightarrow> string option \<Rightarrow> bool option \<Rightarrow> sqlite_error + db" where
  "insert_user d em pw adm =
     (case em of None \<Rightarrow> Inl SQLITE_CONSTRAINT | Some em' \<Rightarrow>
      case pw of None \<Rightarrow> Inl SQLITE_CONSTRAINT | Some pw' \<Rightarrow>
      case adm of None \<Rightarrow> Inl SQLITE_CONSTRAINT | Some adm' \<Rightarrow>
        if em' \<in> set (map email (users d)) then Inl SQLITE_CONSTRAINT
        else Inr (d\<lparr>users := users d @
                       [\<lparr>u_id = new_user_id d, email = em', password = pw', is_admin = adm'\<rparr>],
                    users_seq := new_user_id d\<rparr>))"

text \<open>
  \<^verbatim>\<open>UPDATE borrow_requests SET status = ? WHERE id = ?\<close>. The column is \<^verbatim>\<open>NOT NULL\<close>
  with \<^verbatim>\<open>CHECK(status IN ('Pending', 'Approved', 'Denied'))\<close>; the constraints are
  checked on the rows that the statement changes, so a statement that selects no row
  succeeds with any status.
\<close>

definition id_matches :: "env \<Rightarrow> string \<Rightarrow> borrow_request \<Rightarrow> bool" where
  "id_matches e ident r = (integer_affinity e ident = Some (r_id r))"

definition set_status :: "env \<Rightarrow> string \<Rightarrow> string \<Rightarrow> borrow_request \<Rightarrow> borrow_request" where
  "set_status e ident v r = (if id_matches e ident r then r\<lparr>status := v\<rparr> else r)"

definition status_allowed :: "string \<Rightarrow> bool" where
  "status_allowed t = (t \<in> set [''Pending'', ''Approved'', ''Denied''])"

definition update_status :: "env \<Rightarrow> db \<Rightarrow> string option \<Rightarrow> string \<Rightarrow> sqlite_error + db" where
  "update_status e d v ident =
     (if list_ex (id_matches e ident) (borrow_requests d) then
        (case v of
           None \<Rightarrow> Inl SQLITE_CONSTRAINT
         | Some t \<Rightarrow>
             if status_allowed t
             then Inr (d\<lparr>borrow_requests := map (set_status e ident t) (borrow_requests d)\<rparr>)
             else Inl SQLITE_CONSTRAINT)
      else Inr d)"

subsection \<open>The authentication middleware\<close>

text \<open>
  \<^verbatim>\<open>authenticateUser\<close> (lines 120 to 138). \<open>Inr u\<close> is \<^verbatim>\<open>req.user = u; next()\<close>;
  \<open>Inl out\<close> ends the request in the middleware. A header without a space leaves
  \<^verbatim>\<open>base64Credentials\<close> undefined, on which \<^verbatim>\<open>Buffer.from\<close> throws. The conjunction
  \<^verbatim>\<open>user && bcrypt.compareSync(...)\<close> does not call \<^verbatim>\<open>bcrypt\<close> when no user is found.
\<close>

definition authenticateUser :: "env \<Rightarrow> db \<Rightarrow> string option \<Rightarrow> outcome + user" where
  "authenticateUser e d authHeader =
     (case authHeader of
        None \<Rightarrow> Inl (Sent 401 (Text ''Authorization header missing''))
      | Some h \<Rightarrow>
          if h = [] then Inl (Sent 401 (Text ''Authorization header missing''))
          else
            (case js_index (js_split CHR '' '' h) 1 of
               None \<Rightarrow> Inl (Threw TypeError)
             | Some base64Credentials \<Rightarrow>
                 (let parts = js_split CHR '':'' (base64_toString e base64Credentials);
                      email' = js_index parts 0;
                      password' = js_index parts 1
                  in case get_user_by_email d email' of
                       None \<Rightarrow> Inl (Sent 401 (Text ''Invalid credentials''))
                     | Some u \<Rightarrow>
                         (case bcrypt_compareSync e password' (password u) of
                            Inl x \<Rightarrow> Inl (Threw x)
                          | Inr ok \<Rightarrow>
                              if ok then Inr u
                              else Inl (Sent 401 (Text ''Invalid credentials''))))))"

subsection \<open>The handlers\<close>

text \<open>Each handler takes \<^verbatim>\<open>req.user\<close> as set by the middleware.\<close>

text \<open>\<^verbatim>\<open>POST /users\<close> (lines 141 to 158). \<^verbatim>\<open>bcrypt.hashSync\<close> runs before the \<^verbatim>\<open>try\<close>.\<close>

definition post_users :: "env \<Rightarrow> db \<Rightarrow> user \<Rightarrow> user_body \<Rightarrow> outcome \<times> db" where
  "post_users e d u body =
     (if \<not> is_admin u then (Sent 403 (Text ''Access denied''), d)
      else
        (let is_admin' = (case is_admin_field body of
                            Undefined \<Rightarrow> Some False | Null \<Rightarrow> None | Value b \<Rightarrow> Some b)
         in case bcrypt_hashSync e (password_field body) of
              Inl x \<Rightarrow> (Threw x, d)
            | Inr hashedPassword \<Rightarrow>
                (case insert_user d (bind_param (email_field body)) (Some hashedPassword) is_admin' of
                   Inr d' \<Rightarrow> (Sent 200 (Text ''User created successfully''), d')
                 | Inl err \<Rightarrow> (Sent 400 (Text ''Error creating user''), d))))"

text \<open>\<^verbatim>\<open>GET /borrow-requests\<close> (lines 161 to 168).\<close>

definition get_borrow_requests :: "db \<Rightarrow> user \<Rightarrow> outcome \<times> db" where
  "get_borrow_requests d u =
     (if \<not> is_admin u then (Sent 403 (Text ''Access denied''), d)
      else (Sent 200 (Requests (borrow_requests d)), d))"

text \<open>\<^verbatim>\<open>PUT /borrow-requests/:id\<close> (lines 171 to 188).\<close>

definition put_borrow_requests :: "env \<Rightarrow> db \<Rightarrow> user \<Rightarrow> string \<Rightarrow> string field \<Rightarrow> outcome \<times> db" where
  "put_borrow_requests e d u ident status' =
     (if \<not> is_admin u then (Sent 403 (Text ''Access denied''), d)
      else
        (case update_status e d (bind_param status') ident of
           Inr d' \<Rightarrow> (Sent 200 (Text ''Request updated''), d')
         | Inl err \<Rightarrow> (Sent 400 (Text ''Error updating request''), d)))"

text \<open>\<^verbatim>\<open>GET /books\<close> (lines 191 to 194).\<close>

definition get_books :: "db \<Rightarrow> user \<Rightarrow> outcome \<times> db" where
  "get_books d u = (Sent 200 (Books (books d)), d)"

text \<open>\<^verbatim>\<open>POST /borrow-requests\<close> (lines 197 to 221).\<close>

definition post_borrow_requests :: "db \<Rightarrow> user \<Rightarrow> borrow_body \<Rightarrow> outcome \<times> db" where
  "post_borrow_requests d u body =
     (let b = bind_param (book_id_field body);
          s = bind_param (start_date_field body);
          e = bind_param (end_date_field body)
      in case get_conflict d b s e of
           Some conflict \<Rightarrow>
             (Sent 400 (Text ''Book already borrowed during the selected period''), d)
         | None \<Rightarrow>
             (case insert_borrow_request d b (Some (u_id u)) s e of
                Inr d' \<Rightarrow> (Sent 200 (Text ''Request submitted''), d')
              | Inl err \<Rightarrow> (Sent 400 (Text ''Error submitting request''), d)))"

subsection \<open>The routes\<close>

text \<open>
  \<^verbatim>\<open>app.METHOD(path, authenticateUser, handler)\<close>: the handler runs only when the
  middleware calls \<^verbatim>\<open>next()\<close>.
\<close>

definition guarded :: "env \<Rightarrow> db \<Rightarrow> string option \<Rightarrow> (user \<Rightarrow> outcome \<times> db) \<Rightarrow> outcome \<times> db" where
  "guarded e d authHeader handler =
     (case authenticateUser e d authHeader of
        Inl out \<Rightarrow> (out, d)
      | Inr u \<Rightarrow> handler u)"

definition route_post_users :: "env \<Rightarrow> db \<Rightarrow> string option \<Rightarrow> user_body \<Rightarrow> outcome \<times> db" where
  "route_post_users e d authHeader body = guarded e d authHeader (\<lambda>u. post_users e d u body)"

definition route_get_borrow_requests :: "env \<Rightarrow> db \<Rightarrow> string option \<Rightarrow> outcome \<times> db" where
  "route_get_borrow_requests e d authHeader = guarded e d authHeader (\<lambda>u. get_borrow_requests d u)"

definition route_put_borrow_requests ::
  "env \<Rightarrow> db \<Rightarrow> string option \<Rightarrow> string \<Rightarrow> string field \<Rightarrow> outcome \<times> db" where
  "route_put_borrow_requests e d authHeader ident status' =
     guarded e d authHeader (\<lambda>u. put_borrow_requests e d u ident status')"

definition route_get_books :: "env \<Rightarrow> db \<Rightarrow> string option \<Rightarrow> outcome \<times> db" where
  "route_get_books e d authHeader = guarded e d authHeader (\<lambda>u. get_books d u)"

definition route_post_borrow_requests :: "env \<Rightarrow> db \<Rightarrow> string option \<Rightarrow> borrow_body \<Rightarrow> outcome \<times> db" where
  "route_post_borrow_requests e d authHeader body =
     guarded e d authHeader (\<lambda>u. post_borrow_requests d u body)"

subsection \<open>Sequences of operations and the booking invariant\<close>

text \<open>
  The two operations of the borrow workflow, as calls of their handlers;
  \<open>run\<close> applies a sequence of them to a database.
\<close>

datatype operation =
  SubmitRequest user borrow_body
| UpdateRequestStatus user string "string field"

fun step :: "env \<Rightarrow> db \<Rightarrow> operation \<Rightarrow> db" where
  "step e d (SubmitRequest u body) = snd (post_borrow_requests d u body)"
| "step e d (UpdateRequestStatus u ident status') = snd (put_borrow_requests e d u ident status')"

definition run :: "env \<Rightarrow> db \<Rightarrow> operation list \<Rightarrow> db" where
  "run e d ops = foldl (step e) d ops"

text \<open>
  The specification's invariant, in the specification's words: two inclusive date ranges
  overlap when they share a day, and a database is double booked when two different
  Approved rows of one book overlap.
\<close>

definition ranges_overlap :: "borrow_request \<Rightarrow> borrow_request \<Rightarrow> bool" where
  "ranges_overlap r r' = (start_date r \<le> end_date r' \<and> start_date r' \<le> end_date r)"

definition clash :: "borrow_request \<Rightarrow> borrow_request \<Rightarrow> bool" where
  "clash r r' =
     (book_id r = book_id r' \<and> status r = ''Approved'' \<and> status r' = ''Approved'' \<and>
      ranges_overlap r r')"

fun double_booked_rows :: "borrow_request list \<Rightarrow> bool" where
  "double_booked_rows [] = False"
| "double_booked_rows (r # rs) = (list_ex (clash r) rs \<or> double_booked_rows rs)"

definition double_booked :: "db \<Rightarrow> bool" where
  "double_booked d = double_booked_rows (borrow_requests d)"

subsection \<open>Example data\<close>

text \<open>
  An instance of the external collaborators for running the model on concrete requests.
  \<open>example_base64\<close> decodes the four tokens that the examples present;
  \<open>example_hash\<close> and \<open>example_compare\<close> stand in for \<^verbatim>\<open>bcrypt\<close> and keep its
  contract that a hash is accepted for the data it was made from and for no other;
  \<open>example_integer\<close> reads a string of decimal digits.
\<close>

definition example_base64 :: "string \<Rightarrow> string" where
  "example_base64 c =
     (case map_of
        [(''YWRtaW5AbGliLm9yZzpzZWNyZXQ='', ''admin@lib.org:secret''),
         (''cmVhZGVyQGxpYi5vcmc6Ym9va3M='', ''reader@lib.org:books''),
         (''Y2Fyb2xAbGliLm9yZzpwYTpzcw=='', ''carol@lib.org:pa:ss''),
         (''cmVhZGVyQGxpYi5vcmc6Ym9va3M6dGFtcGVyZWQ='', ''reader@lib.org:books:tampered'')] c of
        Some t \<Rightarrow> t
      | None \<Rightarrow> [])"

definition example_hash :: "string \<Rightarrow> string" where
  "example_hash p = ''hash of '' @ p"

definition example_compare :: "string \<Rightarrow> string \<Rightarrow> bool" where
  "example_compare p h = (h = example_hash p)"

definition digit_value :: "char \<Rightarrow> int option" where
  "digit_value c =
     map_of [(CHR ''0'', 0), (CHR ''1'', 1), (CHR ''2'', 2), (CHR ''3'', 3), (CHR ''4'', 4),
             (CHR ''5'', 5), (CHR ''6'', 6), (CHR ''7'', 7), (CHR ''8'', 8), (CHR ''9'', 9)] c"

fun digits_value :: "int \<Rightarrow> string \<Rightarrow> int option" where
  "digits_value n [] = Some n"
| "digits_value n (c # cs) =
     (case digit_value c of None \<Rightarrow> None | Some k \<Rightarrow> digits_value (10 * n + k) cs)"

definition example_integer :: "string \<Rightarrow> int option" where
  "example_integer t = (if t = [] then None else digits_value 0 t)"

definition example_env :: env where
  "example_env =
     \<lparr>base64_toString = example_base64, compareSync = example_compare,
      hashSync = example_hash, integer_affinity = example_integer\<rparr>"

definition admin :: user where
  "admin = \<lparr>u_id = 1, email = ''admin@lib.org'', password = ''hash of secret'', is_admin = True\<rparr>"

definition reader :: user where
  "reader = \<lparr>u_id = 2, email = ''reader@lib.org'', password = ''hash of books'', is_admin = False\<rparr>"

definition carol :: user where
  "carol = \<lparr>u_id = 3, email = ''carol@lib.org'', password = ''hash of pa:ss'', is_admin = False\<rparr>"

text \<open>The example of the specification: book 1 has an Approved request for 10 to 20 January.\<close>

definition approved_row :: borrow_request where
  "approved_row =
     \<lparr>r_id = 1, book_id = 1, user_id = 3, start_date = ''2024-01-10'', end_date = ''2024-01-20'',
      status = ''Approved''\<rparr>"

definition earlier_row :: borrow_request where
  "earlier_row =
     \<lparr>r_id = 2, book_id = 1, user_id = 3, start_date = ''2024-01-01'', end_date = ''2024-01-07'',
      status = ''Approved''\<rparr>"

definition pending_row :: borrow_request where
  "pending_row =
     \<lparr>r_id = 3, book_id = 2, user_id = 2, start_date = ''2024-02-01'', end_date = ''2024-02-05'',
      status = ''Pending''\<rparr>"

definition library_users :: "user list" where
  "library_users = [admin, reader, carol]"

definition library_books :: "book list" where
  "library_books =
     [\<lparr>b_id = 1, title = ''Dune'', author = ''Herbert''\<rparr>,
      \<lparr>b_id = 2, title = ''Emma'', author = ''Austen''\<rparr>]"

definition library :: db where
  "library =
     \<lparr>users = library_users, books = library_books, borrow_requests = [approved_row],
      users_seq = 3, borrow_requests_seq = 1\<rparr>"

definition new_library :: db where
  "new_library =
     \<lparr>users = library_users, books = library_books, borrow_requests = [],
      users_seq = 3, borrow_requests_seq = 0\<rparr>"

definition busy_library :: db where
  "busy_library =
     \<lparr>users = library_users, books = library_books,
      borrow_requests = [approved_row, earlier_row, pending_row],
      users_seq = 3, borrow_requests_seq = 3\<rparr>"

section \<open>Properties\<close>

subsection \<open>Helper lemmas\<close>

lemma post_borrow_requests_no_conflict:
  "get_conflict d (Some b) (Some s) (Some e) = None \<Longrightarrow>
   post_borrow_requests d u (request_body b s e) =
     (Sent 200 (Text ''Request submitted''),
      d\<lparr>borrow_requests := borrow_requests d @
           [\<lparr>r_id = new_request_id d,
             book_id = b, user_id = u_id u, start_date = s, end_date = e, status = ''Pending''\<rparr>],
        borrow_requests_seq := new_request_id d\<rparr>)"
  by (simp add: post_borrow_requests_def request_body_def insert_borrow_request_def)

lemma update_status_allowed:
  "t \<in> set [''Pending'', ''Approved'', ''Denied''] \<Longrightarrow>
   update_status e d (Some t) ident =
     Inr (d\<lparr>borrow_requests := map (set_status e ident t) (borrow_requests d)\<rparr>)"
proof (cases "list_ex (id_matches e ident) (borrow_requests d)")
  case True
  assume "t \<in> set [''Pending'', ''Approved'', ''Denied'']"
  with True show ?thesis
    by (simp add: update_status_def status_allowed_def)
next
  case False
  then have "map (set_status e ident t) (borrow_requests d) = borrow_requests d"
    by (simp add: list_ex_iff set_status_def map_idI)
  with False show ?thesis
    by (simp add: update_status_def)
qed

lemma authenticateUser_sends_401:
  "authenticateUser e d h = Inl (Sent c p) \<Longrightarrow> c = 401"
  by (auto simp: authenticateUser_def Let_def bcrypt_compareSync_def
      split: option.splits if_splits sum.splits)

lemma authenticated_in_library:
  assumes "users d = library_users"
  shows "authenticateUser example_env d (Some ''Basic YWRtaW5AbGliLm9yZzpzZWNyZXQ='') = Inr admin"
    and "authenticateUser example_env d (Some ''Basic cmVhZGVyQGxpYi5vcmc6Ym9va3M='') = Inr reader"
  using assms
  by (simp_all add: authenticateUser_def js_split_def example_env_def example_base64_def
      get_user_by_email_def library_users_def admin_def reader_def carol_def
      bcrypt_compareSync_def example_compare_def example_hash_def)

lemma reader_authenticates:
  "authenticateUser example_env library (Some ''Basic cmVhZGVyQGxpYi5vcmc6Ym9va3M='') = Inr reader"
  by (simp add: authenticated_in_library library_def)

lemma admin_authenticates:
  "authenticateUser example_env library (Some ''Basic YWRtaW5AbGliLm9yZzpzZWNyZXQ='') = Inr admin"
  by (simp add: authenticated_in_library library_def)

lemma split_from_piece:
  "sep \<notin> set x \<Longrightarrow> split_from sep piece (x @ sep # rest) = (piece @ x) # split_from sep [] rest"
  by (induction x arbitrary: piece) auto

lemma split_from_last:
  "sep \<notin> set x \<Longrightarrow> split_from sep piece x = [piece @ x]"
  by (induction x arbitrary: piece) auto

theorem submit_conflict_rejected:
  assumes "r \<in> set (borrow_requests d)"
    and "book_id r = b"
    and "status r = ''Approved''"
    and "(start_date r \<le> s \<and> s \<le> end_date r) \<or> (start_date r \<le> e \<and> e \<le> end_date r)"
  shows "post_borrow_requests d u (request_body b s e) =
           (Sent 400 (Text ''Book already borrowed during the selected period''), d)"
proof -
  have "conflict_where (Some b) (Some s) (Some e) r"
    using assms by (auto simp: conflict_where_def sql_between_def)
  with assms(1) have "get_conflict d (Some b) (Some s) (Some e) \<noteq> None"
    unfolding get_conflict_def by (auto simp: find_None_iff)
  then obtain c where "get_conflict d (Some b) (Some s) (Some e) = Some c"
    by auto
  then show ?thesis
    by (simp add: post_borrow_requests_def request_body_def)
qed

text \<open>
  The example of the specification: 15 to 25 January against the Approved range 10 to 20
  January of book 1.
\<close>

theorem submit_conflict_rejected_witness:
  "approved_row \<in> set (borrow_requests library) \<and> book_id approved_row = 1 \<and>
   status approved_row = ''Approved'' \<and>
   start_date approved_row \<le> ''2024-01-15'' \<and> ''2024-01-15'' \<le> end_date approved_row \<and>
   post_borrow_requests library reader (request_body 1 ''2024-01-15'' ''2024-01-25'') =
     (Sent 400 (Text ''Book already borrowed during the selected period''), library)"
  using submit_conflict_rejected [of approved_row library 1 "''2024-01-15''" "''2024-01-25''" reader]
  by (simp add: library_def approved_row_def)

text \<open>
  C2 as stated fails when a second Approved row of the book is present: the request for
  5 to 25 January strictly encloses the range 10 to 20 January, yet its start date lies
  in the range 1 to 7 January of another Approved row, and it is rejected.
\<close>

theorem enclosing_range_counterexample:
  "approved_row \<in> set (borrow_requests busy_library) \<and> book_id approved_row = 1 \<and>
   status approved_row = ''Approved'' \<and>
   ''2024-01-05'' < start_date approved_row \<and> end_date approved_row < ''2024-01-25'' \<and>
   post_borrow_requests busy_library reader (request_body 1 ''2024-01-05'' ''2024-01-25'') =
     (Sent 400 (Text ''Book already borrowed during the selected period''), busy_library)"
  by (simp add: busy_library_def approved_row_def earlier_row_def pending_row_def
      post_borrow_requests_def request_body_def get_conflict_def conflict_where_def sql_between_def)

text \<open>
  C2, amended. A request whose range strictly encloses an Approved range of the same book
  is not matched against that row by the conflict query; when no other row of the table
  is an Approved row of the book holding the proposed start or end date, the query finds
  nothing and the request is accepted and appended as a Pending row.
\<close>

theorem enclosing_range_accepted:
  assumes "r \<in> set (borrow_requests d)"
    and "book_id r = b"
    and "status r = ''Approved''"
    and "s < start_date r"
    and "end_date r < e"
    and "\<forall>r' \<in> set (borrow_requests d). r' \<noteq> r \<longrightarrow>
           \<not> (book_id r' = b \<and> status r' = ''Approved'' \<and>
              ((start_date r' \<le> s \<and> s \<le> end_date r') \<or> (start_date r' \<le> e \<and> e \<le> end_date r')))"
  shows "\<not> conflict_where (Some b) (Some s) (Some e) r \<and>
         get_conflict d (Some b) (Some s) (Some e) = None \<and>
         fst (post_borrow_requests d u (request_body b s e)) = Sent 200 (Text ''Request submitted'') \<and>
         borrow_requests (snd (post_borrow_requests d u (request_body b s e))) =
           borrow_requests d @
             [\<lparr>r_id = new_request_id d,
               book_id = b, user_id = u_id u, start_date = s, end_date = e, status = ''Pending''\<rparr>]"
proof -
  have miss: "\<not> conflict_where (Some b) (Some s) (Some e) r"
    using assms(4,5) by (auto simp: conflict_where_def sql_between_def)
  have "\<not> conflict_where (Some b) (Some s) (Some e) r'" if "r' \<in> set (borrow_requests d)" for r'
  proof (cases "r' = r")
    case True
    with miss show ?thesis by simp
  next
    case False
    with assms(6) that show ?thesis
      by (auto simp: conflict_where_def sql_between_def)
  qed
  then have none: "get_conflict d (Some b) (Some s) (Some e) = None"
    unfolding get_conflict_def by (simp add: find_None_iff)
  from miss none show ?thesis
    by (simp add: post_borrow_requests_no_conflict)
qed

theorem enclosing_range_accepted_witness:
  "approved_row \<in> set (borrow_requests busy_library) \<and> book_id approved_row = 1 \<and>
   status approved_row = ''Approved'' \<and>
   ''2024-01-08'' < start_date approved_row \<and> end_date approved_row < ''2024-01-25'' \<and>
   \<not> conflict_where (Some 1) (Some ''2024-01-08'') (Some ''2024-01-25'') approved_row \<and>
   fst (post_borrow_requests busy_library reader (request_body 1 ''2024-01-08'' ''2024-01-25'')) =
     Sent 200 (Text ''Request submitted'') \<and>
   borrow_requests
     (snd (post_borrow_requests busy_library reader (request_body 1 ''2024-01-08'' ''2024-01-25''))) =
     [approved_row, earlier_row, pending_row,
      \<lparr>r_id = 4, book_id = 1, user_id = 2, start_date = ''2024-01-08'', end_date = ''2024-01-25'',
        status = ''Pending''\<rparr>]"
  using enclosing_range_accepted [of approved_row busy_library 1 "''2024-01-08''" "''2024-01-25''" reader]
  by (simp add: busy_library_def approved_row_def earlier_row_def pending_row_def reader_def
      new_request_id_def next_rowid_def)

text \<open>
  C4 as stated fails for a body that lacks a field: without \<^verbatim>\<open>start_date\<close> the conflict
  query finds no row, so the call passes the conflict check, but the \<^verbatim>\<open>INSERT\<close> breaks
  the \<^verbatim>\<open>NOT NULL\<close> constraint of the column, the handler answers 400
  \<^verbatim>\<open>Error submitting request\<close> and no row is written.
\<close>

theorem submit_missing_field_counterexample:
  "get_conflict library
     (bind_param (book_id_field
        \<lparr>book_id_field = Value 1, start_date_field = Undefined, end_date_field = Value ''2024-01-08''\<rparr>))
     (bind_param (start_date_field
        \<lparr>book_id_field = Value 1, start_date_field = Undefined, end_date_field = Value ''2024-01-08''\<rparr>))
     (bind_param (end_date_field
        \<lparr>book_id_field = Value 1, start_date_field = Undefined, end_date_field = Value ''2024-01-08''\<rparr>)) =
     None \<and>
   post_borrow_requests library reader
     \<lparr>book_id_field = Value 1, start_date_field = Undefined, end_date_field = Value ''2024-01-08''\<rparr> =
     (Sent 400 (Text ''Error submitting request''), library)"
  by (simp add: library_def approved_row_def get_conflict_def conflict_where_def sql_between_def
      post_borrow_requests_def insert_borrow_request_def)

text \<open>
  C4, amended. A request whose body holds a value for each of \<^verbatim>\<open>book_id\<close>,
  \<^verbatim>\<open>start_date\<close> and \<^verbatim>\<open>end_date\<close> and that passes the conflict check is answered with
  \<^verbatim>\<open>Request submitted\<close>; the table is the old table followed by exactly one new row,
  which is Pending and owned by the requester, the other tables are unchanged, and
  \<^verbatim>\<open>GET /borrow-requests\<close> by an administrator then returns the whole table, new row
  included, in storage order.
\<close>

theorem submit_complete_body_inserts_pending_row:
  assumes "book_id_field body = Value b"
    and "start_date_field body = Value s"
    and "end_date_field body = Value e"
    and "get_conflict d (bind_param (book_id_field body)) (bind_param (start_date_field body))
           (bind_param (end_date_field body)) = None"
    and "is_admin a"
  shows "fst (post_borrow_requests d u body) = Sent 200 (Text ''Request submitted'') \<and>
         borrow_requests (snd (post_borrow_requests d u body)) =
           borrow_requests d @
             [\<lparr>r_id = new_request_id d, book_id = b, user_id = u_id u, start_date = s, end_date = e,
               status = ''Pending''\<rparr>] \<and>
         users (snd (post_borrow_requests d u body)) = users d \<and>
         books (snd (post_borrow_requests d u body)) = books d \<and>
         fst (get_borrow_requests (snd (post_borrow_requests d u body)) a) =
           Sent 200 (Requests (borrow_requests d @
             [\<lparr>r_id = new_request_id d, book_id = b, user_id = u_id u, start_date = s, end_date = e,
               status = ''Pending''\<rparr>]))"
proof -
  from assms(1-3) have whole: "body = request_body b s e"
    by (cases body) (simp add: request_body_def)
  from assms(1-4) have "get_conflict d (Some b) (Some s) (Some e) = None"
    by simp
  then show ?thesis
    using assms(5) unfolding whole
    by (simp add: post_borrow_requests_no_conflict get_borrow_requests_def)
qed

theorem submit_complete_body_inserts_pending_row_witness:
  "book_id_field (request_body 1 ''2024-01-05'' ''2024-01-08'') = Value 1 \<and>
   start_date_field (request_body 1 ''2024-01-05'' ''2024-01-08'') = Value ''2024-01-05'' \<and>
   end_date_field (request_body 1 ''2024-01-05'' ''2024-01-08'') = Value ''2024-01-08'' \<and>
   get_conflict library (Some 1) (Some ''2024-01-05'') (Some ''2024-01-08'') = None \<and>
   is_admin admin \<and>
   fst (post_borrow_requests library reader (request_body 1 ''2024-01-05'' ''2024-01-08'')) =
     Sent 200 (Text ''Request submitted'') \<and>
   fst (get_borrow_requests
          (snd (post_borrow_requests library reader (request_body 1 ''2024-01-05'' ''2024-01-08''))) admin) =
     Sent 200 (Requests
       [approved_row,
        \<lparr>r_id = 2, book_id = 1, user_id = 2, start_date = ''2024-01-05'', end_date = ''2024-01-08'',
          status = ''Pending''\<rparr>])"
proof -
  have fields: "book_id_field (request_body 1 ''2024-01-05'' ''2024-01-08'') = Value 1"
    "start_date_field (request_body 1 ''2024-01-05'' ''2024-01-08'') = Value ''2024-01-05''"
    "end_date_field (request_body 1 ''2024-01-05'' ''2024-01-08'') = Value ''2024-01-08''"
    by (simp_all add: request_body_def)
  have free: "get_conflict library (Some 1) (Some ''2024-01-05'') (Some ''2024-01-08'') = None"
    by (simp add: get_conflict_def library_def approved_row_def conflict_where_def sql_between_def)
  then have check: "get_conflict library
      (bind_param (book_id_field (request_body 1 ''2024-01-05'' ''2024-01-08'')))
      (bind_param (start_date_field (request_body 1 ''2024-01-05'' ''2024-01-08'')))
      (bind_param (end_date_field (request_body 1 ''2024-01-05'' ''2024-01-08''))) = None"
    by (simp add: fields)
  have adm: "is_admin admin"
    by (simp add: admin_def)
  from submit_complete_body_inserts_pending_row [OF fields check adm, of reader] fields free adm
  show ?thesis
    by (simp add: library_def approved_row_def reader_def new_request_id_def next_rowid_def)
qed

text \<open>
  C10. The date strings are not validated: for any two strings, when the conflict query
  finds no row, the database after the call is the old one with one Pending row appended
  that holds both strings as they were sent.
\<close>

theorem submit_stores_dates_verbatim:
  assumes "get_conflict d (Some b) (Some s) (Some e) = None"
  shows "post_borrow_requests d u (request_body b s e) =
     (Sent 200 (Text ''Request submitted''),
      d\<lparr>borrow_requests := borrow_requests d @
           [\<lparr>r_id = new_request_id d,
             book_id = b, user_id = u_id u, start_date = s, end_date = e, status = ''Pending''\<rparr>],
        borrow_requests_seq := new_request_id d\<rparr>)"
  using assms by (rule post_borrow_requests_no_conflict)

text \<open>A start date that is no calendar date and an end date that sorts before it.\<close>

theorem submit_stores_dates_verbatim_witness:
  "get_conflict library (Some 1) (Some ''tomorrow'') (Some '''') = None \<and>
   ('''' :: string) < ''tomorrow'' \<and>
   post_borrow_requests library reader (request_body 1 ''tomorrow'' '''') =
     (Sent 200 (Text ''Request submitted''),
      library\<lparr>borrow_requests :=
           [approved_row,
            \<lparr>r_id = 2, book_id = 1, user_id = 2, start_date = ''tomorrow'', end_date = '''',
              status = ''Pending''\<rparr>],
         borrow_requests_seq := 2\<rparr>)"
proof -
  have free: "get_conflict library (Some 1) (Some ''tomorrow'') (Some '''') = None"
    by (simp add: get_conflict_def library_def approved_row_def conflict_where_def sql_between_def)
  from submit_stores_dates_verbatim [OF free, of reader] free show ?thesis
    by (simp add: library_def approved_row_def reader_def new_request_id_def next_rowid_def)
qed

subsection \<open>Updating the status of a request\<close>

text \<open>
  C5 as stated fails for a status outside the three values of the table's \<^verbatim>\<open>CHECK\<close>
  constraint: for the existing request 3 and the status \<^verbatim>\<open>Returned\<close> the update is
  refused, the answer is 400 and the row keeps its status.
\<close>

theorem update_status_counterexample:
  "is_admin admin \<and> pending_row \<in> set (borrow_requests busy_library) \<and>
   integer_affinity example_env ''3'' = Some (r_id pending_row) \<and>
   put_borrow_requests example_env busy_library admin ''3'' (Value ''Returned'') =
     (Sent 400 (Text ''Error updating request''), busy_library) \<and>
   status pending_row \<noteq> ''Returned''"
  by (simp add: admin_def busy_library_def approved_row_def earlier_row_def pending_row_def
      example_env_def example_integer_def digit_value_def put_borrow_requests_def
      update_status_def id_matches_def status_allowed_def)

text \<open>
  C5, amended. For a status among Pending, Approved and Denied,
  \<^verbatim>\<open>PUT /borrow-requests/:id\<close> by an administrator answers \<^verbatim>\<open>Request updated\<close>; every row
  whose id equals the request id has its status set to the new status and its other
  fields kept, every other row and every other table is unchanged, and a following
  \<^verbatim>\<open>GET /borrow-requests\<close> returns the rows with the new status.
\<close>

theorem update_status_overwrites:
  assumes "is_admin u"
    and "v = ''Pending'' \<or> v = ''Approved'' \<or> v = ''Denied''"
  shows "fst (put_borrow_requests e d u ident (Value v)) = Sent 200 (Text ''Request updated'') \<and>
         users (snd (put_borrow_requests e d u ident (Value v))) = users d \<and>
         books (snd (put_borrow_requests e d u ident (Value v))) = books d \<and>
         length (borrow_requests (snd (put_borrow_requests e d u ident (Value v)))) =
           length (borrow_requests d) \<and>
         (\<forall>i < length (borrow_requests d).
            borrow_requests (snd (put_borrow_requests e d u ident (Value v))) ! i =
              (if integer_affinity e ident = Some (r_id (borrow_requests d ! i))
               then (borrow_requests d ! i)\<lparr>status := v\<rparr>
               else borrow_requests d ! i)) \<and>
         fst (get_borrow_requests (snd (put_borrow_requests e d u ident (Value v))) u) =
           Sent 200 (Requests (map (\<lambda>r. if integer_affinity e ident = Some (r_id r)
                                          then r\<lparr>status := v\<rparr> else r) (borrow_requests d)))"
proof -
  from assms(2) have "v \<in> set [''Pending'', ''Approved'', ''Denied'']"
    by auto
  then have "put_borrow_requests e d u ident (Value v) =
      (Sent 200 (Text ''Request updated''),
       d\<lparr>borrow_requests := map (set_status e ident v) (borrow_requests d)\<rparr>)"
    using assms(1) by (simp add: put_borrow_requests_def update_status_allowed)
  moreover have "set_status e ident v = (\<lambda>r. if integer_affinity e ident = Some (r_id r)
                                          then r\<lparr>status := v\<rparr> else r)"
    by (rule ext) (simp add: set_status_def id_matches_def)
  ultimately show ?thesis
    using assms(1) by (simp add: get_borrow_requests_def)
qed

theorem update_status_overwrites_witness:
  "is_admin admin \<and>
   fst (put_borrow_requests example_env busy_library admin ''3'' (Value ''Approved'')) =
     Sent 200 (Text ''Request updated'') \<and>
   fst (get_borrow_requests
          (snd (put_borrow_requests example_env busy_library admin ''3'' (Value ''Approved''))) admin) =
     Sent 200 (Requests [approved_row, earlier_row, pending_row\<lparr>status := ''Approved''\<rparr>])"
proof -
  have adm: "is_admin admin"
    by (simp add: admin_def)
  have three: "integer_affinity example_env ''3'' = Some 3"
    by (simp add: example_env_def example_integer_def digit_value_def)
  from update_status_overwrites [OF adm, of "''Approved''" example_env busy_library "''3''"] adm three
  show ?thesis
    by (simp add: busy_library_def approved_row_def earlier_row_def pending_row_def)
qed

text \<open>
  C9. When the request id matches no row, \<^verbatim>\<open>PUT /borrow-requests/:id\<close> by an
  administrator answers 200 \<^verbatim>\<open>Request updated\<close>, whatever the status field holds, and
  the database is unchanged.
\<close>

theorem update_unknown_id_changes_nothing:
  assumes "is_admin u"
    and "\<forall>r \<in> set (borrow_requests d). integer_affinity e ident \<noteq> Some (r_id r)"
  shows "put_borrow_requests e d u ident status' = (Sent 200 (Text ''Request updated''), d)"
proof -
  from assms(2) have "\<not> list_ex (id_matches e ident) (borrow_requests d)"
    by (simp add: list_ex_iff id_matches_def)
  then have "update_status e d (bind_param status') ident = Inr d"
    by (simp add: update_status_def)
  with assms(1) show ?thesis
    by (simp add: put_borrow_requests_def)
qed

theorem update_unknown_id_changes_nothing_witness:
  "is_admin admin \<and>
   integer_affinity example_env ''99'' = Some 99 \<and>
   map r_id (borrow_requests busy_library) = [1, 2, 3] \<and>
   put_borrow_requests example_env busy_library admin ''99'' (Value ''Approved'') =
     (Sent 200 (Text ''Request updated''), busy_library)"
proof -
  have adm: "is_admin admin"
    by (simp add: admin_def)
  have miss: "\<forall>r \<in> set (borrow_requests busy_library). integer_affinity example_env ''99'' \<noteq> Some (r_id r)"
    by (simp add: busy_library_def approved_row_def earlier_row_def pending_row_def
        example_env_def example_integer_def digit_value_def)
  have ids: "integer_affinity example_env ''99'' = Some 99 \<and>
             map r_id (borrow_requests busy_library) = [1, 2, 3]"
    by (simp add: busy_library_def approved_row_def earlier_row_def pending_row_def
        example_env_def example_integer_def digit_value_def)
  from update_unknown_id_changes_nothing [OF adm miss, of "Value ''Approved''"] adm ids
  show ?thesis by simp
qed

subsection \<open>Authorisation\<close>

text \<open>
  C6. When the middleware resolves a user who is not an administrator, the routes
  \<^verbatim>\<open>POST /users\<close>, \<^verbatim>\<open>GET /borrow-requests\<close> and \<^verbatim>\<open>PUT /borrow-requests/:id\<close> answer
  403 \<^verbatim>\<open>Access denied\<close> for every body and leave the database unchanged; every response
  that the middleware itself sends has code 401, which is not 403.
\<close>

theorem ordinary_user_denied:
  assumes "authenticateUser e d h = Inr u"
    and "\<not> is_admin u"
  shows "route_post_users e d h body = (Sent 403 (Text ''Access denied''), d) \<and>
         route_get_borrow_requests e d h = (Sent 403 (Text ''Access denied''), d) \<and>
         route_put_borrow_requests e d h ident status' = (Sent 403 (Text ''Access denied''), d) \<and>
         (\<forall>h' c p. authenticateUser e d h' = Inl (Sent c p) \<longrightarrow> c = 401 \<and> c \<noteq> 403)"
proof -
  have "c = 401 \<and> c \<noteq> 403" if "authenticateUser e d h' = Inl (Sent c p)" for h' c p
    using authenticateUser_sends_401 [OF that] by simp
  with assms show ?thesis
    by (simp add: route_post_users_def route_get_borrow_requests_def route_put_borrow_requests_def
        guarded_def post_users_def get_borrow_requests_def put_borrow_requests_def)
qed

theorem ordinary_user_denied_witness:
  "authenticateUser example_env library (Some ''Basic cmVhZGVyQGxpYi5vcmc6Ym9va3M='') = Inr reader \<and>
   \<not> is_admin reader \<and>
   route_post_users example_env library (Some ''Basic cmVhZGVyQGxpYi5vcmc6Ym9va3M='')
     \<lparr>email_field = Value ''eve@lib.org'', password_field = Value ''x'', is_admin_field = Value True\<rparr> =
     (Sent 403 (Text ''Access denied''), library) \<and>
   route_get_borrow_requests example_env library (Some ''Basic cmVhZGVyQGxpYi5vcmc6Ym9va3M='') =
     (Sent 403 (Text ''Access denied''), library) \<and>
   route_put_borrow_requests example_env library (Some ''Basic cmVhZGVyQGxpYi5vcmc6Ym9va3M='')
     ''1'' (Value ''Denied'') = (Sent 403 (Text ''Access denied''), library)"
proof -
  have ord: "\<not> is_admin reader"
    by (simp add: reader_def)
  from ordinary_user_denied [OF reader_authenticates ord] reader_authenticates ord
  show ?thesis by simp
qed

subsection \<open>Creating a user\<close>

text \<open>
  C8. The claim is that \<^verbatim>\<open>POST /users\<close> by an administrator always ends in one of the
  responses 200, 400, 401 or 403. The handler does not: with no \<^verbatim>\<open>password\<close> in the
  body, \<^verbatim>\<open>bcrypt.hashSync\<close> throws before the \<^verbatim>\<open>try\<close> block is entered, the exception
  leaves the handler and no response is sent. The first conjunct is the handler for any
  administrator, database and body without a password; the second is the whole route
  for the body \<^verbatim>\<open>{"email": "new@lib.org"}\<close>.
\<close>

theorem post_users_without_password_throws:
  "post_users e d (u\<lparr>is_admin := True\<rparr>)
     \<lparr>email_field = em, password_field = Undefined, is_admin_field = a\<rparr> = (Threw BcryptError, d) \<and>
   route_post_users example_env library (Some ''Basic YWRtaW5AbGliLm9yZzpzZWNyZXQ='')
     \<lparr>email_field = Value ''new@lib.org'', password_field = Undefined, is_admin_field = Undefined\<rparr> =
     (Threw BcryptError, library)"
  by (simp add: route_post_users_def guarded_def admin_authenticates post_users_def
      bcrypt_hashSync_def admin_def)

subsection \<open>Authentication\<close>

text \<open>
  The middleware reads the identity and the secret as the first two pieces that
  \<^verbatim>\<open>split(':')\<close> gives, so whatever follows a second colon in the decoded credentials
  takes no part in the decision.
\<close>

lemma authenticateUser_reads_two_pieces:
  assumes "CHR '' '' \<notin> set c"
    and "CHR '':'' \<notin> set em"
    and "CHR '':'' \<notin> set p"
    and "base64_toString e c = em @ '':'' @ p @ '':'' @ rest"
  shows "authenticateUser e d (Some (''Basic '' @ c)) =
           (case get_user_by_email d (Some em) of
              None \<Rightarrow> Inl (Sent 401 (Text ''Invalid credentials''))
            | Some u \<Rightarrow>
                if compareSync e p (password u) then Inr u
                else Inl (Sent 401 (Text ''Invalid credentials'')))"
proof -
  have "split_from CHR '' '' [] (''Basic '' @ c) = [''Basic'', c]"
    using assms(1) split_from_last [of "CHR '' ''" c "[]"] by simp
  then have cred: "js_index (js_split CHR '' '' (''Basic '' @ c)) 1 = Some c"
    by (simp add: js_split_def)
  have "split_from CHR '':'' [] (em @ CHR '':'' # p @ CHR '':'' # rest) =
          em # p # split_from CHR '':'' [] rest"
    using assms(2,3) by (simp add: split_from_piece)
  then have parts: "js_split CHR '':'' (base64_toString e c) = em # p # split_from CHR '':'' [] rest"
    using assms(4) by (simp add: js_split_def)
  have "authenticateUser e d (Some (''Basic '' @ c)) =
          (case get_user_by_email d (Some em) of
             None \<Rightarrow> Inl (Sent 401 (Text ''Invalid credentials''))
           | Some u \<Rightarrow>
               (case bcrypt_compareSync e (Some p) (password u) of
                  Inl x \<Rightarrow> Inl (Threw x)
                | Inr ok \<Rightarrow>
                    if ok then Inr u else Inl (Sent 401 (Text ''Invalid credentials''))))"
    using cred parts by (simp add: authenticateUser_def split: option.splits)
  then show ?thesis
    by (simp add: bcrypt_compareSync_def split: option.splits)
qed

text \<open>
  C7. The claim is that the middleware accepts a stored user exactly when the presented
  secret matches the stored hash. It does not when the secret holds a colon. The stored
  user \<open>carol\<close> has the secret \<^verbatim>\<open>pa:ss\<close>; presenting \<^verbatim>\<open>carol@lib.org:pa:ss\<close> compares
  \<^verbatim>\<open>pa\<close> with her hash and answers 401. The stored user \<open>reader\<close> has the secret
  \<^verbatim>\<open>books\<close>; presenting \<^verbatim>\<open>reader@lib.org:books:tampered\<close>, whose secret does not match
  his hash, is accepted as \<open>reader\<close>.
\<close>

theorem secret_with_colon_is_cut:
  "carol \<in> set (users library) \<and>
   base64_toString example_env ''Y2Fyb2xAbGliLm9yZzpwYTpzcw=='' = ''carol@lib.org:pa:ss'' \<and>
   compareSync example_env ''pa:ss'' (password carol) \<and>
   authenticateUser example_env library (Some ''Basic Y2Fyb2xAbGliLm9yZzpwYTpzcw=='') =
     Inl (Sent 401 (Text ''Invalid credentials'')) \<and>
   reader \<in> set (users library) \<and>
   base64_toString example_env ''cmVhZGVyQGxpYi5vcmc6Ym9va3M6dGFtcGVyZWQ='' =
     ''reader@lib.org:books:tampered'' \<and>
   \<not> compareSync example_env ''books:tampered'' (password reader) \<and>
   authenticateUser example_env library (Some ''Basic cmVhZGVyQGxpYi5vcmc6Ym9va3M6dGFtcGVyZWQ='') =
     Inr reader"
  by (simp add: authenticateUser_def js_split_def example_env_def example_base64_def
      get_user_by_email_def library_def library_users_def admin_def reader_def carol_def
      bcrypt_compareSync_def example_compare_def example_hash_def)

subsection \<open>The booking invariant\<close>

text \<open>
  C3. The claim is that no state reachable from the empty database is double booked.
  Two requests for overlapping ranges of book 1 are both accepted as Pending, since the
  conflict query only looks at Approved rows, and the update of the status checks no
  overlap, so approving both leaves two overlapping Approved rows of the same book. The
  first two conjuncts run the handlers from the empty database; the third runs the
  routes, with their authentication, from a database that holds users and books only.
\<close>

lemma routes_double_book:
  "route_put_borrow_requests example_env
     (snd (route_put_borrow_requests example_env
        (snd (route_post_borrow_requests example_env
           (snd (route_post_borrow_requests example_env new_library
              (Some ''Basic cmVhZGVyQGxpYi5vcmc6Ym9va3M='')
              (request_body 1 ''2024-01-10'' ''2024-01-20'')))
           (Some ''Basic cmVhZGVyQGxpYi5vcmc6Ym9va3M='')
           (request_body 1 ''2024-01-15'' ''2024-01-25'')))
        (Some ''Basic YWRtaW5AbGliLm9yZzpzZWNyZXQ='') ''1'' (Value ''Approved'')))
     (Some ''Basic YWRtaW5AbGliLm9yZzpzZWNyZXQ='') ''2'' (Value ''Approved'') =
   (Sent 200 (Text ''Request updated''),
    new_library\<lparr>borrow_requests :=
        [\<lparr>r_id = 1, book_id = 1, user_id = 2, start_date = ''2024-01-10'', end_date = ''2024-01-20'',
          status = ''Approved''\<rparr>,
         \<lparr>r_id = 2, book_id = 1, user_id = 2, start_date = ''2024-01-15'', end_date = ''2024-01-25'',
          status = ''Approved''\<rparr>],
      borrow_requests_seq := 2\<rparr>)"
  by (simp add: route_post_borrow_requests_def route_put_borrow_requests_def guarded_def
      authenticated_in_library new_library_def
      post_borrow_requests_def request_body_def get_conflict_def conflict_where_def sql_between_def
      insert_borrow_request_def new_request_id_def next_rowid_def
      put_borrow_requests_def update_status_def id_matches_def set_status_def status_allowed_def)
    (simp add: reader_def admin_def example_env_def example_integer_def digit_value_def)

theorem approvals_double_book:
  "run example_env empty_db
     [SubmitRequest reader (request_body 1 ''2024-01-10'' ''2024-01-20''),
      SubmitRequest carol (request_body 1 ''2024-01-15'' ''2024-01-25''),
      UpdateRequestStatus admin ''1'' (Value ''Approved''),
      UpdateRequestStatus admin ''2'' (Value ''Approved'')] =
     \<lparr>users = [], books = [],
      borrow_requests =
        [\<lparr>r_id = 1, book_id = 1, user_id = 2, start_date = ''2024-01-10'', end_date = ''2024-01-20'',
          status = ''Approved''\<rparr>,
         \<lparr>r_id = 2, book_id = 1, user_id = 3, start_date = ''2024-01-15'', end_date = ''2024-01-25'',
          status = ''Approved''\<rparr>],
      users_seq = 0, borrow_requests_seq = 2\<rparr> \<and>
   double_booked (run example_env empty_db
     [SubmitRequest reader (request_body 1 ''2024-01-10'' ''2024-01-20''),
      SubmitRequest carol (request_body 1 ''2024-01-15'' ''2024-01-25''),
      UpdateRequestStatus admin ''1'' (Value ''Approved''),
      UpdateRequestStatus admin ''2'' (Value ''Approved'')]) \<and>
   double_booked
     (snd (route_put_borrow_requests example_env
        (snd (route_put_borrow_requests example_env
           (snd (route_post_borrow_requests example_env
              (snd (route_post_borrow_requests example_env new_library
                 (Some ''Basic cmVhZGVyQGxpYi5vcmc6Ym9va3M='')
                 (request_body 1 ''2024-01-10'' ''2024-01-20'')))
              (Some ''Basic cmVhZGVyQGxpYi5vcmc6Ym9va3M='')
              (request_body 1 ''2024-01-15'' ''2024-01-25'')))
           (Some ''Basic YWRtaW5AbGliLm9yZzpzZWNyZXQ='') ''1'' (Value ''Approved'')))
        (Some ''Basic YWRtaW5AbGliLm9yZzpzZWNyZXQ='') ''2'' (Value ''Approved'')))"
proof -
  have handlers: "run example_env empty_db
     [SubmitRequest reader (request_body 1 ''2024-01-10'' ''2024-01-20''),
      SubmitRequest carol (request_body 1 ''2024-01-15'' ''2024-01-25''),
      UpdateRequestStatus admin ''1'' (Value ''Approved''),
      UpdateRequestStatus admin ''2'' (Value ''Approved'')] =
     \<lparr>users = [], books = [],
      borrow_requests =
        [\<lparr>r_id = 1, book_id = 1, user_id = 2, start_date = ''2024-01-10'', end_date = ''2024-01-20'',
          status = ''Approved''\<rparr>,
         \<lparr>r_id = 2, book_id = 1, user_id = 3, start_date = ''2024-01-15'', end_date = ''2024-01-25'',
          status = ''Approved''\<rparr>],
      users_seq = 0, borrow_requests_seq = 2\<rparr>"
    by (simp add: run_def empty_db_def request_body_def post_borrow_requests_def get_conflict_def
        conflict_where_def sql_between_def
        insert_borrow_request_def new_request_id_def next_rowid_def put_borrow_requests_def
        update_status_def id_matches_def set_status_def status_allowed_def
        example_env_def example_integer_def digit_value_def admin_def reader_def carol_def)
  have one: "double_booked (run example_env empty_db
     [SubmitRequest reader (request_body 1 ''2024-01-10'' ''2024-01-20''),
      SubmitRequest carol (request_body 1 ''2024-01-15'' ''2024-01-25''),
      UpdateRequestStatus admin ''1'' (Value ''Approved''),
      UpdateRequestStatus admin ''2'' (Value ''Approved'')])"
    unfolding handlers by (simp add: double_booked_def clash_def ranges_overlap_def)
  have two: "double_booked
     (snd (route_put_borrow_requests example_env
        (snd (route_put_borrow_requests example_env
           (snd (route_post_borrow_requests example_env
              (snd (route_post_borrow_requests example_env new_library
                 (Some ''Basic cmVhZGVyQGxpYi5vcmc6Ym9va3M='')
                 (request_body 1 ''2024-01-10'' ''2024-01-20'')))
              (Some ''Basic cmVhZGVyQGxpYi5vcmc6Ym9va3M='')
              (request_body 1 ''2024-01-15'' ''2024-01-25'')))
           (Some ''Basic YWRtaW5AbGliLm9yZzpzZWNyZXQ='') ''1'' (Value ''Approved'')))
        (Some ''Basic YWRtaW5AbGliLm9yZzpzZWNyZXQ='') ''2'' (Value ''Approved'')))"
    unfolding routes_double_book by (simp add: double_booked_def clash_def ranges_overlap_def)
  from handlers one two show ?thesis
    by (intro conjI)
qed

end
